theory Spec2Isabelle
  imports Complex_Main "HOL-Library.Sublist" "HOL-Library.Multiset"
begin

section \<open>JavaScript helpers\<close>

text \<open>
  \<^verbatim>\<open>Array.prototype.sort(compareFn)\<close> is a stable sort: an element \<open>a\<close> ends before
  \<open>b\<close> when \<open>compareFn(a, b) < 0\<close>, and elements that compare equal keep their order.
  For a consistent comparator that result is unique; it is computed here by a stable
  insertion sort. The comparators of the scene are differences of finite numbers
  (NaN is not modelled).
\<close>

fun insert_cmp :: "('a \<Rightarrow> 'a \<Rightarrow> 'n::linordered_idom) \<Rightarrow> 'a \<Rightarrow> 'a list \<Rightarrow> 'a list" where
  "insert_cmp cmp x [] = [x]"
| "insert_cmp cmp x (y # ys) =
     (if cmp x y \<le> 0 then x # y # ys else y # insert_cmp cmp x ys)"

definition array_sort :: "('a \<Rightarrow> 'a \<Rightarrow> 'n::linordered_idom) \<Rightarrow> 'a list \<Rightarrow> 'a list" where
  "array_sort cmp xs = foldr (insert_cmp cmp) xs []"

text \<open>\<^verbatim>\<open>array.splice(start, 0, item)\<close> with \<open>0 \<le> start \<le> length\<close>.\<close>

definition splice_insert :: "nat \<Rightarrow> 'a \<Rightarrow> 'a list \<Rightarrow> 'a list" where
  "splice_insert start item xs = take start xs @ [item] @ drop start xs"

section \<open>Scene stacks (src/core/scenes/Scene.js)\<close>

text \<open>
  The fields of a mesh that the scene reads: \<open>mesh.uuid\<close>, \<open>mesh.index\<close>,
  \<open>mesh.transparent\<close>, \<open>mesh.renderOrder\<close>, \<open>mesh.documentPosition.z\<close>,
  \<open>mesh.material.options.rendering.useProjection\<close>,
  \<open>mesh.material.pipelineEntry.index\<close> and the private \<open>#autoRender\<close> flag.
\<close>

record mesh =
  uuid :: string
  index :: int
  transparent :: bool
  renderOrder :: int
  documentPosition_z :: real
  useProjection :: bool
  pipelineEntry_index :: int
  autoRender :: bool

text \<open>A render texture owned by a shader pass or a ping-pong plane.\<close>

record renderTexture =
  texture :: nat
  size_width :: nat
  size_height :: nat

text \<open>Shader passes and ping-pong planes, as far as the scene reads them.\<close>

record pass_plane =
  pp_uuid :: string
  pp_renderOrder :: int
  pp_renderTexture :: renderTexture

text \<open>
  \<open>renderer.meshes\<close> together with \<open>scene.stacks\<close>:
  \<open>stacks.unprojected.{opaque, transparent, pingPongPlanes, shaderPasses}\<close> and
  \<open>stacks.projected.{opaque, transparent}\<close>.
\<close>

record scene =
  meshes :: "mesh list"
  unprojected_opaque :: "mesh list"
  unprojected_transparent :: "mesh list"
  pingPongPlanes :: "pass_plane list"
  shaderPasses :: "pass_plane list"
  projected_opaque :: "mesh list"
  projected_transparent :: "mesh list"

definition setStacks :: "mesh list \<Rightarrow> scene" where
  "setStacks ms = \<lparr> meshes = ms, unprojected_opaque = [], unprojected_transparent = [],
     pingPongPlanes = [], shaderPasses = [], projected_opaque = [],
     projected_transparent = [] \<rparr>"

text \<open>
  The loop of \<open>addMesh\<close> that looks for a sibling from the end:
  \<^verbatim>\<open>for (let i = similarMeshes.length - 1; i >= 0; i--)\<close>, stopping at the first
  mesh with the same pipeline entry index. The third argument is \<open>i + 1\<close>.
\<close>

fun scanSibling :: "mesh list \<Rightarrow> mesh \<Rightarrow> nat \<Rightarrow> int" where
  "scanSibling similarMeshes m 0 = - 1"
| "scanSibling similarMeshes m (Suc i) =
     (if pipelineEntry_index (similarMeshes ! i) = pipelineEntry_index m
      then int i + 1
      else scanSibling similarMeshes m i)"

definition similarMeshes_of :: "scene \<Rightarrow> mesh \<Rightarrow> mesh list" where
  "similarMeshes_of sc m =
     filter (\<lambda>x. transparent x = transparent m \<and> uuid x \<noteq> uuid m) (meshes sc)"

definition rebuiltStack :: "scene \<Rightarrow> mesh \<Rightarrow> mesh list" where
  "rebuiltStack sc m =
     (let similarMeshes = similarMeshes_of sc m;
          siblingMeshIndex = max 0 (scanSibling similarMeshes m (length similarMeshes));
          similarMeshes = splice_insert (nat siblingMeshIndex) m similarMeshes;
          similarMeshes = array_sort (\<lambda>a b. index a - index b) similarMeshes;
          similarMeshes =
            (if transparent m
             then array_sort (\<lambda>a b. documentPosition_z b - documentPosition_z a) similarMeshes
             else similarMeshes)
      in array_sort (\<lambda>a b. renderOrder b - renderOrder a) similarMeshes)"

definition addMesh :: "scene \<Rightarrow> mesh \<Rightarrow> scene" where
  "addMesh sc m =
     (let similarMeshes = rebuiltStack sc m in
      if useProjection m
      then (if transparent m then sc\<lparr>projected_transparent := similarMeshes\<rparr>
            else sc\<lparr>projected_opaque := similarMeshes\<rparr>)
      else (if transparent m then sc\<lparr>unprojected_transparent := similarMeshes\<rparr>
            else sc\<lparr>unprojected_opaque := similarMeshes\<rparr>))"

definition removeMesh :: "scene \<Rightarrow> mesh \<Rightarrow> scene" where
  "removeMesh sc m =
     (if useProjection m
      then (if transparent m
            then sc\<lparr>projected_transparent := filter (\<lambda>x. uuid x \<noteq> uuid m) (projected_transparent sc)\<rparr>
            else sc\<lparr>projected_opaque := filter (\<lambda>x. uuid x \<noteq> uuid m) (projected_opaque sc)\<rparr>)
      else (if transparent m
            then sc\<lparr>unprojected_transparent := filter (\<lambda>x. uuid x \<noteq> uuid m) (unprojected_transparent sc)\<rparr>
            else sc\<lparr>unprojected_opaque := filter (\<lambda>x. uuid x \<noteq> uuid m) (unprojected_opaque sc)\<rparr>))"

definition addShaderPass :: "scene \<Rightarrow> pass_plane \<Rightarrow> scene" where
  "addShaderPass sc shaderPass =
     sc\<lparr>shaderPasses :=
          array_sort (\<lambda>a b. pp_renderOrder b - pp_renderOrder a) (shaderPasses sc @ [shaderPass])\<rparr>"

definition addPingPongPlane :: "scene \<Rightarrow> pass_plane \<Rightarrow> scene" where
  "addPingPongPlane sc pingPongPlane =
     sc\<lparr>pingPongPlanes :=
          array_sort (\<lambda>a b. pp_renderOrder b - pp_renderOrder a) (pingPongPlanes sc @ [pingPongPlane])\<rparr>"

text \<open>
  \<open>addToScene\<close> of the mesh base mixin: the mesh is pushed to \<open>renderer.meshes\<close>, then
  handed to \<open>scene.addMesh\<close> when it renders automatically. (In between, the sample
  count of the material is updated; the scene does not read it.)
\<close>

definition addToScene :: "scene \<Rightarrow> mesh \<Rightarrow> scene" where
  "addToScene sc m =
     (let sc = sc\<lparr>meshes := meshes sc @ [m]\<rparr>
      in if autoRender m then addMesh sc m else sc)"

subsection \<open>Concrete scenes\<close>

definition mesh_ro0 :: mesh where
  "mesh_ro0 = \<lparr>uuid = ''a'', index = 0, transparent = False, renderOrder = 0,
     documentPosition_z = 0, useProjection = False, pipelineEntry_index = 0, autoRender = True\<rparr>"

definition mesh_ro10 :: mesh where
  "mesh_ro10 = \<lparr>uuid = ''b'', index = 1, transparent = False, renderOrder = 10,
     documentPosition_z = 0, useProjection = False, pipelineEntry_index = 0, autoRender = True\<rparr>"

definition mesh_projected :: mesh where
  "mesh_projected = \<lparr>uuid = ''p'', index = 2, transparent = False, renderOrder = 0,
     documentPosition_z = 0, useProjection = True, pipelineEntry_index = 1, autoRender = True\<rparr>"

definition mesh_far :: mesh where
  "mesh_far = \<lparr>uuid = ''far'', index = 0, transparent = True, renderOrder = 0,
     documentPosition_z = 5, useProjection = True, pipelineEntry_index = 0, autoRender = True\<rparr>"

definition mesh_near :: mesh where
  "mesh_near = \<lparr>uuid = ''near'', index = 1, transparent = True, renderOrder = 0,
     documentPosition_z = 1, useProjection = True, pipelineEntry_index = 0, autoRender = True\<rparr>"

definition mesh_mid :: mesh where
  "mesh_mid = \<lparr>uuid = ''mid'', index = 2, transparent = True, renderOrder = 0,
     documentPosition_z = 3, useProjection = True, pipelineEntry_index = 0, autoRender = True\<rparr>"

section \<open>Creation index of a mesh (mesh base mixin)\<close>

text \<open>
  A JavaScript data property with its attributes. \<^verbatim>\<open>Object.defineProperty(o, k, { value: v })\<close>
  leaves \<open>writable\<close>, \<open>enumerable\<close> and \<open>configurable\<close> at their default, false.
  The mixin is a class body, hence strict code: assigning to a non-writable property
  throws a TypeError.
\<close>

datatype js_error = TypeError

record 'a property =
  prop_value :: 'a
  prop_writable :: bool
  prop_enumerable :: bool
  prop_configurable :: bool

definition defineProperty_value :: "'a \<Rightarrow> 'a property" where
  "defineProperty_value v =
     \<lparr>prop_value = v, prop_writable = False, prop_enumerable = False, prop_configurable = False\<rparr>"

definition assign_property :: "'a property \<Rightarrow> 'a \<Rightarrow> js_error + 'a property" where
  "assign_property p v = (if prop_writable p then Inr (p\<lparr>prop_value := v\<rparr>) else Inl TypeError)"

text \<open>
  The part of the constructor that identifies the mesh:
  \<^verbatim>\<open>this.uuid = generateUUID()\<close> and
  \<^verbatim>\<open>Object.defineProperty(this, 'index', { value: meshIndex++ })\<close>, where
  \<open>meshIndex\<close> is the counter of the module (\<^verbatim>\<open>let meshIndex = 0\<close>). The counter is
  threaded through as state; the generated uuid is an input. A JavaScript number counts
  exactly up to \<open>2^53\<close>; the counter is a natural number here.
\<close>

record meshBase =
  mb_uuid :: string
  mb_index :: "nat property"

definition MeshBase_constructor :: "nat \<Rightarrow> string \<Rightarrow> meshBase \<times> nat" where
  "MeshBase_constructor meshIndex generated_uuid =
     (\<lparr>mb_uuid = generated_uuid, mb_index = defineProperty_value meshIndex\<rparr>, meshIndex + 1)"

text \<open>Meshes created one after the other, oldest first, and the counter afterwards.\<close>

fun construct_meshes :: "nat \<Rightarrow> string list \<Rightarrow> meshBase list \<times> nat" where
  "construct_meshes meshIndex [] = ([], meshIndex)"
| "construct_meshes meshIndex (u # us) =
     (let (m, meshIndex') = MeshBase_constructor meshIndex u;
          (ms, meshIndex'') = construct_meshes meshIndex' us
      in (m # ms, meshIndex''))"

section \<open>Bindings and texture bind groups\<close>

text \<open>
  A binding as the pipeline entry and the bind groups read it: its visibility (a set of
  \<open>GPUShaderStage\<close> bits), the WGSL fragments that declare it, and its resource.
\<close>

record binding =
  visibility :: nat
  wgslStructFragment :: "string option"
  wgslGroupFragment :: "string list"
  resource :: "nat option"

text \<open>
  \<open>SamplerBinding\<close> (src/core/bindings/SamplerBinding.ts): the sampler is the resource.
  The setter of \<open>resource\<close>:
  \<^verbatim>\<open>if (value && this.sampler) this.shouldResetBindGroup = true; this.sampler = value\<close>.
\<close>

record samplerBinding =
  sb_sampler :: "nat option"
  shouldResetBindGroup :: bool

definition set_resource :: "samplerBinding \<Rightarrow> nat option \<Rightarrow> samplerBinding" where
  "set_resource b v =
     (let b = (if v \<noteq> None \<and> sb_sampler b \<noteq> None then b\<lparr>shouldResetBindGroup := True\<rparr> else b)
      in b\<lparr>sb_sampler := v\<rparr>)"

text \<open>
  A texture of a bind group (\<open>texture.texture\<close>, \<open>texture.externalTexture\<close>, and
  \<open>texture.sampler\<close> in the older class) and a sampler (\<open>sampler.sampler\<close>,
  \<open>sampler.binding\<close>).
\<close>

record materialTexture =
  mt_texture :: "nat option"
  mt_externalTexture :: "nat option"
  mt_sampler :: "nat option"

record sampler =
  gpu_sampler :: "nat option"
  sampler_binding :: samplerBinding

text \<open>
  \<open>TextureBindGroup\<close>: the fields of src/core/bindGroups/TextureBindGroup.ts
  (\<open>bindGroup\<close>, \<open>bindings\<close>, \<open>textures\<close>, \<open>samplers\<close>) and of the older class
  (\<open>externalTexturesIndex\<close>, \<open>needsPipelineFlush\<close>).
\<close>

record textureBindGroup =
  tbg_bindGroup :: "nat option"
  tbg_bindings :: "binding list"
  tbg_textures :: "materialTexture list"
  tbg_samplers :: "sampler list"
  externalTexturesIndex :: "nat list"
  needsPipelineFlush :: bool

text \<open>The getter \<open>shouldCreateBindGroup\<close> of TextureBindGroup.ts.\<close>

definition shouldCreateBindGroup :: "textureBindGroup \<Rightarrow> bool" where
  "shouldCreateBindGroup bg \<longleftrightarrow>
     tbg_bindGroup bg = None \<and>
     length (tbg_bindings bg) \<noteq> 0 \<and>
     find (\<lambda>t. \<not> (mt_texture t \<noteq> None \<or> mt_externalTexture t \<noteq> None)) (tbg_textures bg) = None \<and>
     find (\<lambda>s. gpu_sampler s = None) (tbg_samplers bg) = None"

text \<open>\<open>canCreateBindGroup\<close> of the older class.\<close>

definition canCreateBindGroup :: "textureBindGroup \<Rightarrow> bool" where
  "canCreateBindGroup bg \<longleftrightarrow>
     tbg_bindGroup bg = None \<and>
     find (\<lambda>t. mt_sampler t = None \<or> mt_texture t = None) (tbg_textures bg) = None"

text \<open>
  \<open>shouldUpdateVideoTextureBindGroupLayout(textureIndex)\<close> of the older class, called
  after an external (video) texture has been uploaded. It returns its result and the
  bind group as it leaves it. (The count \<open>nbExternalTexture\<close> it computes first is
  never read.)
\<close>

definition shouldUpdateVideoTextureBindGroupLayout ::
    "textureBindGroup \<Rightarrow> nat \<Rightarrow> bool \<times> textureBindGroup" where
  "shouldUpdateVideoTextureBindGroupLayout bg textureIndex =
     (if textureIndex \<in> set (externalTexturesIndex bg) then (False, bg)
      else (let bg = bg\<lparr>externalTexturesIndex := externalTexturesIndex bg @ [textureIndex]\<rparr>;
                bg = bg\<lparr>needsPipelineFlush := True\<rparr>
            in (needsPipelineFlush bg, bg)))"

text \<open>
  Setting the resource of the binding of the \<open>i\<close>-th sampler of a bind group. The
  binding is an object shared with the bind group, so the bind group sees the change.
  An index out of range names no binding.
\<close>

definition setSamplerBindingResource :: "textureBindGroup \<Rightarrow> nat \<Rightarrow> nat option \<Rightarrow> textureBindGroup" where
  "setSamplerBindingResource bg i v =
     (if i < length (tbg_samplers bg)
      then bg\<lparr>tbg_samplers := (tbg_samplers bg)
             [i := (tbg_samplers bg ! i)\<lparr>sampler_binding := set_resource (sampler_binding (tbg_samplers bg ! i)) v\<rparr>]\<rparr>
      else bg)"

text \<open>What \<open>Material.updateBindGroups\<close> does to the flag once the pipeline is flushed.\<close>

definition clearPipelineFlush :: "textureBindGroup \<Rightarrow> textureBindGroup" where
  "clearPipelineFlush bg = bg\<lparr>needsPipelineFlush := False\<rparr>"

subsection \<open>Concrete bind groups\<close>

definition empty_bind_group :: textureBindGroup where
  "empty_bind_group = \<lparr>tbg_bindGroup = None, tbg_bindings = [], tbg_textures = [],
     tbg_samplers = [], externalTexturesIndex = [], needsPipelineFlush = False\<rparr>"

definition video_bind_group :: textureBindGroup where
  "video_bind_group =
     \<lparr>tbg_bindGroup = Some 1,
      tbg_bindings = [\<lparr>visibility = 7, wgslStructFragment = None,
                       wgslGroupFragment = [''var videoSampler: sampler;''], resource = Some 3\<rparr>],
      tbg_textures = [\<lparr>mt_texture = Some 2, mt_externalTexture = None, mt_sampler = Some 3\<rparr>],
      tbg_samplers = [\<lparr>gpu_sampler = Some 3,
                       sampler_binding = \<lparr>sb_sampler = Some 3, shouldResetBindGroup = False\<rparr>\<rparr>],
      externalTexturesIndex = [], needsPipelineFlush = False\<rparr>"

definition fresh_bind_group :: textureBindGroup where
  "fresh_bind_group = video_bind_group\<lparr>tbg_bindGroup := None\<rparr>"

section \<open>Rendering a frame (Scene.render, GPURenderer.render, Material.render)\<close>

text \<open>
  What \<open>Scene.render\<close> does to the outside world, in the order it does it: the calls
  of the methods of its elements (\<open>element.onBeforeRenderPass()\<close>,
  \<open>element.render(pass)\<close>), of the renderer and of the command encoder. A render pass
  is named by the number of passes the encoder had begun before it.
\<close>

datatype command =
    OnBeforeRenderPass string
  | SetRenderPassCurrentTexture
  | BeginRenderPass nat
  | Render string nat
  | SetBindGroup nat nat nat
  | EndPass nat
  | CopyTextureToTexture nat nat nat nat

record commandEncoder =
  trace :: "command list"
  passes :: nat

definition issue :: "command \<Rightarrow> commandEncoder \<Rightarrow> commandEncoder" where
  "issue c enc = enc\<lparr>trace := trace enc @ [c]\<rparr>"

definition beginRenderPass :: "commandEncoder \<Rightarrow> nat \<times> commandEncoder" where
  "beginRenderPass enc =
     (passes enc, (issue (BeginRenderPass (passes enc)) enc)\<lparr>passes := passes enc + 1\<rparr>)"

text \<open>
  The renderer: what its getter \<open>ready\<close> reads (\<open>deviceManager.ready\<close>, \<open>context\<close>,
  \<open>canvas.style.width\<close>), the current texture of its context, its camera bind group
  (index and device bind group) when it has one, its scene, and the callbacks that
  \<open>render\<close> runs around the scene, which receive the command encoder.
\<close>

record renderer =
  deviceManager_ready :: bool
  gpu_context :: "nat option"
  canvas_style_width :: string
  currentTexture :: nat
  cameraBindGroup :: "(nat \<times> nat) option"
  renderer_scene :: "scene option"
  onBeforeRenderCallback :: "(commandEncoder \<Rightarrow> commandEncoder) option"
  onBeforeRenderScene :: "(commandEncoder \<Rightarrow> commandEncoder) list"
  onAfterRenderCallback :: "(commandEncoder \<Rightarrow> commandEncoder) option"
  onAfterRenderScene :: "(commandEncoder \<Rightarrow> commandEncoder) list"

definition ready :: "renderer \<Rightarrow> bool" where
  "ready r \<longleftrightarrow> deviceManager_ready r \<and> gpu_context r \<noteq> None \<and> canvas_style_width r \<noteq> []"

text \<open>The body of the \<open>forEach\<close> over the ping-pong planes.\<close>

definition render_pingPongPlane :: "nat \<Rightarrow> pass_plane \<Rightarrow> commandEncoder \<Rightarrow> commandEncoder" where
  "render_pingPongPlane swapChainTexture pingPongPlane enc =
     (let (pingPongRenderPass, enc) = beginRenderPass enc;
          enc = issue (Render (pp_uuid pingPongPlane) pingPongRenderPass) enc;
          enc = issue (EndPass pingPongRenderPass) enc
      in issue (CopyTextureToTexture swapChainTexture
                  (texture (pp_renderTexture pingPongPlane))
                  (size_width (pp_renderTexture pingPongPlane))
                  (size_height (pp_renderTexture pingPongPlane))) enc)"

text \<open>The body of the \<open>forEach\<close> over the shader passes.\<close>

definition render_shaderPass :: "nat \<Rightarrow> pass_plane \<Rightarrow> commandEncoder \<Rightarrow> commandEncoder" where
  "render_shaderPass swapChainTexture shaderPass enc =
     (let enc = issue (CopyTextureToTexture swapChainTexture
                  (texture (pp_renderTexture shaderPass))
                  (size_width (pp_renderTexture shaderPass))
                  (size_height (pp_renderTexture shaderPass))) enc;
          (shaderPassRenderPass, enc) = beginRenderPass enc;
          enc = issue (Render (pp_uuid shaderPass) shaderPassRenderPass) enc
      in issue (EndPass shaderPassRenderPass) enc)"

text \<open>
  \<open>Scene.render(commandEncoder)\<close>. The two \<open>for \<dots> in\<close> loops visit the stacks in the
  order \<open>setStacks\<close> creates them.
\<close>

definition scene_render :: "renderer \<Rightarrow> scene \<Rightarrow> commandEncoder \<Rightarrow> commandEncoder" where
  "scene_render r sc enc =
     (let enc = fold (\<lambda>element. issue (OnBeforeRenderPass (uuid element))) (unprojected_opaque sc) enc;
          enc = fold (\<lambda>element. issue (OnBeforeRenderPass (uuid element))) (unprojected_transparent sc) enc;
          enc = fold (\<lambda>element. issue (OnBeforeRenderPass (pp_uuid element))) (pingPongPlanes sc) enc;
          enc = fold (\<lambda>element. issue (OnBeforeRenderPass (pp_uuid element))) (shaderPasses sc) enc;
          enc = fold (\<lambda>element. issue (OnBeforeRenderPass (uuid element))) (projected_opaque sc) enc;
          enc = fold (\<lambda>element. issue (OnBeforeRenderPass (uuid element))) (projected_transparent sc) enc;
          enc = issue SetRenderPassCurrentTexture enc;
          swapChainTexture = currentTexture r;
          enc = fold (render_pingPongPlane swapChainTexture) (pingPongPlanes sc) enc;
          (pass, enc) = beginRenderPass enc;
          enc = fold (\<lambda>mesh. issue (Render (uuid mesh) pass)) (unprojected_opaque sc) enc;
          enc = fold (\<lambda>mesh. issue (Render (uuid mesh) pass)) (unprojected_transparent sc) enc;
          enc = (case cameraBindGroup r of
                   None \<Rightarrow> enc
                 | Some (camera_index, camera_group) \<Rightarrow> issue (SetBindGroup pass camera_index camera_group) enc);
          enc = fold (\<lambda>mesh. issue (Render (uuid mesh) pass)) (projected_opaque sc) enc;
          enc = fold (\<lambda>mesh. issue (Render (uuid mesh) pass)) (projected_transparent sc) enc;
          enc = issue (EndPass pass) enc
      in fold (render_shaderPass swapChainTexture) (shaderPasses sc) enc)"

text \<open>\<open>GPURenderer.render(commandEncoder)\<close>.\<close>

definition renderer_render :: "renderer \<Rightarrow> commandEncoder \<Rightarrow> commandEncoder" where
  "renderer_render r enc =
     (if \<not> ready r then enc
      else
        (let enc = (case onBeforeRenderCallback r of None \<Rightarrow> enc | Some cb \<Rightarrow> cb enc);
             enc = fold (\<lambda>cb. cb) (onBeforeRenderScene r) enc;
             enc = (case renderer_scene r of None \<Rightarrow> enc | Some sc \<Rightarrow> scene_render r sc enc);
             enc = (case onAfterRenderCallback r of None \<Rightarrow> enc | Some cb \<Rightarrow> cb enc)
         in fold (\<lambda>cb. cb) (onAfterRenderScene r) enc))"

text \<open>
  The frame as the specification tells it, phase by phase. \<open>n\<close> is the number of
  passes begun before the phase.
\<close>

definition refresh_phase :: "scene \<Rightarrow> command list" where
  "refresh_phase sc =
     map (\<lambda>m. OnBeforeRenderPass (uuid m)) (unprojected_opaque sc)
     @ map (\<lambda>m. OnBeforeRenderPass (uuid m)) (unprojected_transparent sc)
     @ map (\<lambda>p. OnBeforeRenderPass (pp_uuid p)) (pingPongPlanes sc)
     @ map (\<lambda>p. OnBeforeRenderPass (pp_uuid p)) (shaderPasses sc)
     @ map (\<lambda>m. OnBeforeRenderPass (uuid m)) (projected_opaque sc)
     @ map (\<lambda>m. OnBeforeRenderPass (uuid m)) (projected_transparent sc)"

fun pingPong_phase :: "nat \<Rightarrow> nat \<Rightarrow> pass_plane list \<Rightarrow> command list" where
  "pingPong_phase swap n [] = []"
| "pingPong_phase swap n (p # ps) =
     [BeginRenderPass n, Render (pp_uuid p) n, EndPass n,
      CopyTextureToTexture swap (texture (pp_renderTexture p))
        (size_width (pp_renderTexture p)) (size_height (pp_renderTexture p))]
     @ pingPong_phase swap (Suc n) ps"

definition main_pass :: "renderer \<Rightarrow> scene \<Rightarrow> nat \<Rightarrow> command list" where
  "main_pass r sc n =
     [BeginRenderPass n]
     @ map (\<lambda>m. Render (uuid m) n) (unprojected_opaque sc)
     @ map (\<lambda>m. Render (uuid m) n) (unprojected_transparent sc)
     @ (case cameraBindGroup r of None \<Rightarrow> [] | Some (i, bg) \<Rightarrow> [SetBindGroup n i bg])
     @ map (\<lambda>m. Render (uuid m) n) (projected_opaque sc)
     @ map (\<lambda>m. Render (uuid m) n) (projected_transparent sc)
     @ [EndPass n]"

fun shaderPass_phase :: "nat \<Rightarrow> nat \<Rightarrow> pass_plane list \<Rightarrow> command list" where
  "shaderPass_phase swap n [] = []"
| "shaderPass_phase swap n (p # ps) =
     [CopyTextureToTexture swap (texture (pp_renderTexture p))
        (size_width (pp_renderTexture p)) (size_height (pp_renderTexture p)),
      BeginRenderPass n, Render (pp_uuid p) n, EndPass n]
     @ shaderPass_phase swap (Suc n) ps"

definition passes_phase :: "renderer \<Rightarrow> scene \<Rightarrow> nat \<Rightarrow> command list" where
  "passes_phase r sc n =
     [SetRenderPassCurrentTexture]
     @ pingPong_phase (currentTexture r) n (pingPongPlanes sc)
     @ main_pass r sc (n + length (pingPongPlanes sc))
     @ shaderPass_phase (currentTexture r) (n + length (pingPongPlanes sc) + 1) (shaderPasses sc)"

definition frame_trace :: "renderer \<Rightarrow> scene \<Rightarrow> nat \<Rightarrow> command list" where
  "frame_trace r sc n = refresh_phase sc @ passes_phase r sc n"

definition is_refresh :: "command \<Rightarrow> bool" where
  "is_refresh c = (case c of OnBeforeRenderPass u \<Rightarrow> True | _ \<Rightarrow> False)"

text \<open>Shader passes registered one after the other with \<open>addShaderPass\<close>.\<close>

definition register_shaderPasses :: "scene \<Rightarrow> pass_plane list \<Rightarrow> scene" where
  "register_shaderPasses sc ps = fold (\<lambda>p sc. addShaderPass sc p) ps sc"

subsection \<open>The material\<close>

text \<open>
  The pipeline entry of a material as \<open>Material.render\<close> and the compilation read and
  write it: its index, the compiled pipeline object and the status.
\<close>

record pipelineEntry =
  pe_index :: nat
  pipeline :: "nat option"
  status_compiling :: bool
  status_compiled :: bool
  status_error :: "string option"

text \<open>
  How \<open>createRenderPipelineAsync\<close> leaves the entry once the device has answered,
  with a pipeline or with an error.
\<close>

definition createRenderPipelineAsync_settled :: "pipelineEntry \<Rightarrow> string + nat \<Rightarrow> pipelineEntry" where
  "createRenderPipelineAsync_settled pe answer =
     (case answer of
        Inr p \<Rightarrow> pe\<lparr>pipeline := Some p, status_compiled := True, status_compiling := False,
                    status_error := None\<rparr>
      | Inl error \<Rightarrow> pe\<lparr>status_error := Some error\<rparr>)"

record bindGroup =
  bg_index :: nat
  bg_bindGroup :: "nat option"
  bg_bindings :: "binding list"

record material =
  mat_pipelineEntry :: "pipelineEntry option"
  mat_bindGroups :: "bindGroup list"

text \<open>The commands a render pass encoder receives from a material.\<close>

datatype pass_command =
    SetCurrentPipeline nat
  | PassSetBindGroup nat "nat option"

definition material_ready :: "material \<Rightarrow> bool" where
  "material_ready m = (case mat_pipelineEntry m of None \<Rightarrow> False | Some pe \<Rightarrow> pipeline pe \<noteq> None)"

text \<open>
  \<open>Material.render(pass)\<close>. \<open>pipelineManager.setCurrentPipeline(pass, entry)\<close> is
  recorded as a command of the pass.
\<close>

definition material_render :: "renderer \<Rightarrow> material \<Rightarrow> pass_command list \<Rightarrow> pass_command list" where
  "material_render r m pass =
     (if \<not> ready r then pass
      else if \<not> material_ready m then pass
      else (case mat_pipelineEntry m of
              None \<Rightarrow> pass
            | Some pe \<Rightarrow>
                fold (\<lambda>bindGroup pass. pass @ [PassSetBindGroup (bg_index bindGroup) (bg_bindGroup bindGroup)])
                  (mat_bindGroups m) (pass @ [SetCurrentPipeline (pe_index pe)])))"

subsection \<open>Concrete renderers and frames\<close>

definition plane_A :: pass_plane where
  "plane_A = \<lparr>pp_uuid = ''A'', pp_renderOrder = 0,
     pp_renderTexture = \<lparr>texture = 11, size_width = 4, size_height = 3\<rparr>\<rparr>"

definition plane_B :: pass_plane where
  "plane_B = \<lparr>pp_uuid = ''B'', pp_renderOrder = 1,
     pp_renderTexture = \<lparr>texture = 12, size_width = 4, size_height = 3\<rparr>\<rparr>"

definition plane_C :: pass_plane where
  "plane_C = \<lparr>pp_uuid = ''C'', pp_renderOrder = 0,
     pp_renderTexture = \<lparr>texture = 13, size_width = 4, size_height = 3\<rparr>\<rparr>"

definition ready_renderer :: renderer where
  "ready_renderer = \<lparr>deviceManager_ready = True, gpu_context = Some 1, canvas_style_width = ''800px'',
     currentTexture = 10, cameraBindGroup = Some (0, 5), renderer_scene = None,
     onBeforeRenderCallback = None, onBeforeRenderScene = [],
     onAfterRenderCallback = None, onAfterRenderScene = []\<rparr>"

definition new_encoder :: commandEncoder where
  "new_encoder = \<lparr>trace = [], passes = 0\<rparr>"

definition scene_with_meshes :: scene where
  "scene_with_meshes =
     (setStacks [mesh_ro0, mesh_far])\<lparr>unprojected_opaque := [mesh_ro0],
        projected_transparent := [mesh_far], pingPongPlanes := [plane_C]\<rparr>"

definition lost_renderer :: renderer where
  "lost_renderer = ready_renderer\<lparr>gpu_context := None, renderer_scene := Some scene_with_meshes,
     onBeforeRenderScene := [issue (BeginRenderPass 99)]\<rparr>"

definition compiling_entry :: pipelineEntry where
  "compiling_entry = \<lparr>pe_index = 0, pipeline = None, status_compiling = True,
     status_compiled = False, status_error = None\<rparr>"

definition compiling_material :: material where
  "compiling_material = \<lparr>mat_pipelineEntry = Some compiling_entry,
     mat_bindGroups = [\<lparr>bg_index = 0, bg_bindGroup = Some 4, bg_bindings = []\<rparr>]\<rparr>"

section \<open>Render pipeline entry (RenderPipelineEntry)\<close>

subsection \<open>Strings\<close>







subsection \<open>Bind groups as the pipeline entry reads them\<close>











subsection \<open>The shaders of the entry\<close>

















subsection \<open>Concrete pipeline entries\<close>











section \<open>Properties\<close>

subsection \<open>The stable sort\<close>

lemma insert_cmp_key: "insert_cmp (\<lambda>a b. f a - f b) x xs = insort_key f x xs"
  by (induction xs) auto

lemma array_sort_key: "array_sort (\<lambda>a b. f a - f b) xs = sort_key f xs"
  by (induction xs) (simp_all add: array_sort_def insert_cmp_key)

lemma array_sort_key_desc: "array_sort (\<lambda>a b. f b - f a) xs = sort_key (\<lambda>x. - f x) xs"
proof -
  have "(\<lambda>a b. f b - f a) = (\<lambda>a b. (- f a) - (- f b))"
    by (intro ext) simp
  then show ?thesis
    using array_sort_key [of "\<lambda>x. - f x" xs] by simp
qed

lemma mset_insert_cmp: "mset (insert_cmp cmp x xs) = add_mset x (mset xs)"
  by (induction xs) auto

lemma mset_array_sort: "mset (array_sort cmp xs) = mset xs"
  by (induction xs) (simp_all add: array_sort_def mset_insert_cmp)

lemma array_sort_all_equal:
  "(\<And>x y. x \<in> set xs \<Longrightarrow> y \<in> set xs \<Longrightarrow> cmp x y \<le> 0) \<Longrightarrow> array_sort cmp xs = xs"
proof (induction xs)
  case Nil
  then show ?case by (simp add: array_sort_def)
next
  case (Cons a xs)
  have "array_sort cmp xs = xs" using Cons by simp
  then have "array_sort cmp (a # xs) = insert_cmp cmp a xs"
    by (simp add: array_sort_def)
  also have "\<dots> = a # xs"
    using Cons.prems by (cases xs) auto
  finally show ?case .
qed

lemma singleton_filter:
  assumes "mset xs = {#a, b, c#}" "P a" "\<not> P b" "\<not> P c"
  shows "filter P xs = [a]"
proof -
  have "mset (filter P xs) = filter_mset P {#a, b, c#}"
    using assms(1) by (metis mset_filter)
  also have "\<dots> = {#a#}" using assms by simp
  finally show ?thesis by (metis mset_single_iff_right)
qed

lemma mset_splice_insert: "mset (splice_insert n x xs) = add_mset x (mset xs)"
proof -
  have "mset (take n xs) + mset (drop n xs) = mset xs"
    by (metis append_take_drop_id mset_append)
  then show ?thesis by (simp add: splice_insert_def)
qed

subsection \<open>Render order (C2)\<close>

text \<open>
  C2. The claim says that of two opaque drawables with render order 0 and 10 the one
  with render order 10 ends last in its partition. \<open>addMesh\<close> sorts with
  \<^verbatim>\<open>(a, b) => b.renderOrder - a.renderOrder\<close>, which is descending: evaluated on two
  such meshes, added to an empty scene in either order, the mesh with render order 10
  ends first.
\<close>

theorem render_order_10_ends_first:
  "unprojected_opaque (addToScene (addToScene (setStacks []) mesh_ro0) mesh_ro10)
     = [mesh_ro10, mesh_ro0]
   \<and> unprojected_opaque (addToScene (addToScene (setStacks []) mesh_ro10) mesh_ro0)
     = [mesh_ro10, mesh_ro0]"
  by (simp add: mesh_ro0_def mesh_ro10_def addToScene_def addMesh_def rebuiltStack_def
      similarMeshes_of_def setStacks_def splice_insert_def array_sort_def)

subsection \<open>Insertion into a partition (C3)\<close>

text \<open>
  C3. The claim says that insertion works on the current members of the partition of
  the inserted drawable only. \<open>addMesh\<close> rebuilds the partition from
  \<open>renderer.meshes\<close> filtered by transparency alone, so a projected opaque mesh added
  after an unprojected opaque one pulls the unprojected mesh into the projected
  partition, while it also stays in the unprojected one.
\<close>

theorem addMesh_mixes_partitions:
  "projected_opaque (addToScene (addToScene (setStacks []) mesh_ro0) mesh_projected)
     = [mesh_ro0, mesh_projected]
   \<and> unprojected_opaque (addToScene (addToScene (setStacks []) mesh_ro0) mesh_projected)
     = [mesh_ro0]
   \<and> \<not> useProjection mesh_ro0"
  by (simp add: mesh_ro0_def mesh_projected_def addToScene_def addMesh_def rebuiltStack_def
      similarMeshes_of_def setStacks_def splice_insert_def array_sort_def)

subsection \<open>Transparent meshes are ordered back to front (C4)\<close>

lemma depth_sort_three:
  assumes perm: "mset xs = {#m1, m2, m3#}"
    and z: "documentPosition_z m1 = 5" "documentPosition_z m2 = 1" "documentPosition_z m3 = 3"
  shows "array_sort (\<lambda>a b. documentPosition_z b - documentPosition_z a) xs = [m1, m3, m2]"
proof -
  let ?f = "\<lambda>x. - documentPosition_z x"
  have "sort_key ?f xs = [m1, m3, m2]"
  proof (rule properties_for_sort_key)
    show "mset [m1, m3, m2] = mset xs" using perm by simp
  next
    fix k assume "k \<in> set [m1, m3, m2]"
    then consider "k = m1" | "k = m3" | "k = m2" by auto
    then show "filter (\<lambda>x. ?f k = ?f x) [m1, m3, m2] = filter (\<lambda>x. ?f k = ?f x) xs"
    proof cases
      case 1
      have "filter (\<lambda>x. ?f k = ?f x) xs = [m1]"
        by (rule singleton_filter [OF perm]) (simp_all add: 1 z)
      then show ?thesis by (simp add: 1 z)
    next
      case 2
      have "mset xs = {#m3, m1, m2#}" using perm by simp
      then have "filter (\<lambda>x. ?f k = ?f x) xs = [m3]"
        by (rule singleton_filter) (simp_all add: 2 z)
      then show ?thesis by (simp add: 2 z)
    next
      case 3
      have "mset xs = {#m2, m1, m3#}" using perm by simp
      then have "filter (\<lambda>x. ?f k = ?f x) xs = [m2]"
        by (rule singleton_filter) (simp_all add: 3 z)
      then show ?thesis by (simp add: 3 z)
    qed
  next
    show "sorted (map ?f [m1, m3, m2])" by (simp add: z)
  qed
  then show ?thesis by (simp add: array_sort_key_desc)
qed

lemma rebuiltStack_three:
  assumes sim: "similarMeshes_of sc m3 = [m1, m2]"
    and tr: "transparent m3"
    and z: "documentPosition_z m1 = 5" "documentPosition_z m2 = 1" "documentPosition_z m3 = 3"
    and ro: "renderOrder m1 = renderOrder m2" "renderOrder m2 = renderOrder m3"
  shows "rebuiltStack sc m3 = [m1, m3, m2]"
proof -
  define n where "n = nat (max 0 (scanSibling [m1, m2] m3 (length [m1, m2])))"
  define ys where "ys = array_sort (\<lambda>a b. index a - index b) (splice_insert n m3 [m1, m2])"
  have "mset ys = {#m1, m2, m3#}"
    by (simp add: ys_def mset_array_sort mset_splice_insert)
  then have zs: "array_sort (\<lambda>a b. documentPosition_z b - documentPosition_z a) ys = [m1, m3, m2]"
    using z by (rule depth_sort_three)
  have "array_sort (\<lambda>a b. renderOrder b - renderOrder a) [m1, m3, m2] = [m1, m3, m2]"
    by (rule array_sort_all_equal) (use ro in auto)
  with zs show ?thesis
    using sim tr by (simp add: rebuiltStack_def Let_def n_def ys_def)
qed

text \<open>
  C4. Three transparent meshes of one partition, with distinct uuids and equal render
  order, are added in the order \<open>documentPosition.z\<close> = 5, 1, 3 to a renderer that
  holds no transparent mesh yet. Whatever their creation indices and pipeline entries,
  the transparent partition ends as [z = 5, z = 3, z = 1]: \<open>addMesh\<close> re-sorts a
  transparent partition by descending \<open>documentPosition.z\<close>, and the stable sort by
  render order keeps that order.
\<close>

theorem transparent_back_to_front:
  assumes none: "\<forall>x \<in> set (meshes sc). \<not> transparent x"
    and tr: "transparent m1" "transparent m2" "transparent m3"
    and auto: "autoRender m1" "autoRender m2" "autoRender m3"
    and proj: "useProjection m1 = useProjection m3" "useProjection m2 = useProjection m3"
    and ids: "uuid m1 \<noteq> uuid m2" "uuid m1 \<noteq> uuid m3" "uuid m2 \<noteq> uuid m3"
    and z: "documentPosition_z m1 = 5" "documentPosition_z m2 = 1" "documentPosition_z m3 = 3"
    and ro: "renderOrder m1 = renderOrder m2" "renderOrder m2 = renderOrder m3"
  shows "(let sc' = addToScene (addToScene (addToScene sc m1) m2) m3
          in if useProjection m3 then projected_transparent sc' else unprojected_transparent sc')
         = [m1, m3, m2]"
proof -
  define sc2 where "sc2 = addToScene (addToScene sc m1) m2"
  have ms: "meshes sc2 = meshes sc @ [m1, m2]"
    by (simp add: sc2_def addToScene_def addMesh_def Let_def)
  define sc3 where "sc3 = sc2\<lparr>meshes := meshes sc2 @ [m3]\<rparr>"
  have "filter (\<lambda>x. transparent x = transparent m3 \<and> uuid x \<noteq> uuid m3) (meshes sc) = []"
    using none tr by (auto simp: filter_empty_conv)
  then have sim: "similarMeshes_of sc3 m3 = [m1, m2]"
    using tr ids by (simp add: similarMeshes_of_def sc3_def ms)
  have rb: "rebuiltStack sc3 m3 = [m1, m3, m2]"
    using sim tr(3) z ro by (rule rebuiltStack_three)
  have "addToScene sc2 m3 = addMesh sc3 m3"
    using auto by (simp add: addToScene_def sc3_def Let_def)
  then show ?thesis
    using rb tr by (simp add: sc2_def [symmetric] addMesh_def Let_def)
qed

theorem transparent_back_to_front_witness:
  "projected_transparent
     (addToScene (addToScene (addToScene (setStacks []) mesh_far) mesh_near) mesh_mid)
   = [mesh_far, mesh_mid, mesh_near]"
  using transparent_back_to_front [of "setStacks []" mesh_far mesh_near mesh_mid]
  by (simp add: mesh_far_def mesh_near_def mesh_mid_def setStacks_def)

subsection \<open>Creation indices (C10)\<close>

lemma construct_meshes_Cons:
  "construct_meshes n (u # us) =
     (\<lparr>mb_uuid = u, mb_index = defineProperty_value n\<rparr> # fst (construct_meshes (Suc n) us),
      snd (construct_meshes (Suc n) us))"
  by (simp add: MeshBase_constructor_def split: prod.splits)

lemma construct_meshes_indices:
  "map (\<lambda>m. prop_value (mb_index m)) (fst (construct_meshes n us)) = [n ..< n + length us]"
proof (induction us arbitrary: n)
  case Nil
  then show ?case by simp
next
  case (Cons u us)
  have "[n ..< n + length (u # us)] = n # [Suc n ..< Suc n + length us]"
    by (simp add: upt_rec)
  with Cons [of "Suc n"] show ?case
    by (simp only: construct_meshes_Cons fst_conv list.map)
      (simp add: defineProperty_value_def)
qed

lemma construct_meshes_counter: "snd (construct_meshes n us) = n + length us"
proof (induction us arbitrary: n)
  case Nil
  then show ?case by simp
next
  case (Cons u us)
  from Cons [of "Suc n"] show ?case
    by (simp only: construct_meshes_Cons snd_conv) simp
qed

lemma construct_meshes_not_writable:
  "m \<in> set (fst (construct_meshes n us)) \<Longrightarrow> \<not> prop_writable (mb_index m)"
proof (induction us arbitrary: n)
  case Nil
  then show ?case by simp
next
  case (Cons u us)
  from Cons.prems have "m = \<lparr>mb_uuid = u, mb_index = defineProperty_value n\<rparr>
      \<or> m \<in> set (fst (construct_meshes (Suc n) us))"
    by (simp only: construct_meshes_Cons fst_conv) simp
  then show ?case
    using Cons.IH [of "Suc n"] by (auto simp: defineProperty_value_def)
qed

text \<open>
  C10. Meshes constructed one after the other, from any value \<open>n\<close> of the module's
  counter, carry the indices \<open>n, n + 1, \<dots>\<close> in creation order: strictly increasing,
  hence pairwise distinct, and the counter ends past all of them. The index of each is a
  non-writable property: every assignment to it fails with a TypeError and leaves it as
  it is.
\<close>

theorem creation_index_unique_and_fixed:
  "map (\<lambda>m. prop_value (mb_index m)) (fst (construct_meshes n us)) = [n ..< n + length us]
   \<and> sorted_wrt (<) (map (\<lambda>m. prop_value (mb_index m)) (fst (construct_meshes n us)))
   \<and> distinct (map (\<lambda>m. prop_value (mb_index m)) (fst (construct_meshes n us)))
   \<and> snd (construct_meshes n us) = n + length us
   \<and> (\<forall>m \<in> set (fst (construct_meshes n us)). \<forall>v. assign_property (mb_index m) v = Inl TypeError)"
proof -
  have "sorted_wrt (<) [n ..< n + length us]"
    by simp
  moreover have "distinct [n ..< n + length us]"
    by simp
  ultimately show ?thesis
    by (simp add: construct_meshes_indices construct_meshes_counter
        construct_meshes_not_writable assign_property_def)
qed

theorem creation_index_unique_and_fixed_witness:
  "map (\<lambda>m. prop_value (mb_index m)) (fst (construct_meshes 0 [''u1'', ''u2'', ''u3''])) = [0, 1, 2]
   \<and> assign_property (mb_index (hd (fst (construct_meshes 0 [''u1'', ''u2'', ''u3''])))) 7 = Inl TypeError"
proof -
  have "hd (fst (construct_meshes 0 [''u1'', ''u2'', ''u3'']))
          \<in> set (fst (construct_meshes 0 [''u1'', ''u2'', ''u3'']))"
    by (simp add: MeshBase_constructor_def)
  moreover have "[0 ..< 0 + length [''u1'', ''u2'', ''u3'']] = [0, 1, 2::nat]"
    by (simp add: upt_rec)
  ultimately show ?thesis
    using creation_index_unique_and_fixed [of 0 "[''u1'', ''u2'', ''u3'']"] by metis
qed

subsection \<open>When a texture bind group can be created (C5)\<close>

text \<open>
  C5, as stated, fails: the claim makes a bind group with no binding ready to be
  created. The getter of TextureBindGroup.ts asks for at least one binding
  (\<^verbatim>\<open>!!this.bindings.length\<close>), so the empty bind group, not created yet, is not ready.
\<close>

theorem empty_bind_group_not_ready:
  "tbg_bindGroup empty_bind_group = None \<and> tbg_bindings empty_bind_group = []
   \<and> \<not> shouldCreateBindGroup empty_bind_group"
  by (simp add: empty_bind_group_def shouldCreateBindGroup_def)

text \<open>
  C5, amended. \<open>shouldCreateBindGroup\<close> holds exactly when the device bind group has
  not been created, the bind group has at least one binding, every texture has a GPU
  texture or an external texture, and every sampler has a GPU sampler; a bind group
  without bindings is never ready. The older \<open>canCreateBindGroup\<close> holds exactly when
  the device bind group has not been created and every texture has both its sampler and
  its GPU texture; it does not look at the bindings.
\<close>

theorem bind_group_creation_predicate:
  "(shouldCreateBindGroup bg \<longleftrightarrow>
      tbg_bindGroup bg = None \<and> tbg_bindings bg \<noteq> [] \<and>
      (\<forall>t \<in> set (tbg_textures bg). mt_texture t \<noteq> None \<or> mt_externalTexture t \<noteq> None) \<and>
      (\<forall>s \<in> set (tbg_samplers bg). gpu_sampler s \<noteq> None))
   \<and> (tbg_bindings bg = [] \<longrightarrow> \<not> shouldCreateBindGroup bg)
   \<and> (canCreateBindGroup bg \<longleftrightarrow>
      tbg_bindGroup bg = None \<and>
      (\<forall>t \<in> set (tbg_textures bg). mt_sampler t \<noteq> None \<and> mt_texture t \<noteq> None))"
  unfolding shouldCreateBindGroup_def canCreateBindGroup_def find_None_iff
  by auto

theorem bind_group_creation_predicate_witness:
  "shouldCreateBindGroup fresh_bind_group \<and> canCreateBindGroup fresh_bind_group
   \<and> \<not> shouldCreateBindGroup video_bind_group"
  using bind_group_creation_predicate [of fresh_bind_group]
    bind_group_creation_predicate [of video_bind_group]
  by (simp add: fresh_bind_group_def video_bind_group_def)

subsection \<open>No redundant pipeline flush (C8)\<close>

lemma shouldUpdate_registers:
  "textureIndex \<in> set (externalTexturesIndex (snd (shouldUpdateVideoTextureBindGroupLayout bg textureIndex)))"
  by (simp add: shouldUpdateVideoTextureBindGroupLayout_def Let_def)

text \<open>
  C8. Setting the resource of a sampler binding leaves \<open>needsPipelineFlush\<close> of its
  bind group as it was, and marks the binding for a bind group reset exactly when both
  the old and the new sampler are set. An upload at a texture index that is already
  registered returns false and changes nothing; only an upload at an index not yet
  registered raises the flag, and it registers the index, so that a repeated upload at
  that index changes nothing, also after the flag has been cleared by a pipeline flush.
\<close>

theorem no_redundant_flush:
  "needsPipelineFlush (setSamplerBindingResource bg j v) = needsPipelineFlush bg
   \<and> (shouldResetBindGroup (set_resource b v) \<longleftrightarrow>
        shouldResetBindGroup b \<or> (v \<noteq> None \<and> sb_sampler b \<noteq> None))
   \<and> (i \<in> set (externalTexturesIndex bg) \<longrightarrow>
        shouldUpdateVideoTextureBindGroupLayout bg i = (False, bg))
   \<and> (needsPipelineFlush (snd (shouldUpdateVideoTextureBindGroupLayout bg i)) \<and> \<not> needsPipelineFlush bg
        \<longrightarrow> i \<notin> set (externalTexturesIndex bg))
   \<and> (let bg1 = snd (shouldUpdateVideoTextureBindGroupLayout bg i)
      in shouldUpdateVideoTextureBindGroupLayout bg1 i = (False, bg1)
       \<and> shouldUpdateVideoTextureBindGroupLayout (clearPipelineFlush bg1) i
           = (False, clearPipelineFlush bg1))"
proof -
  have a: "needsPipelineFlush (setSamplerBindingResource bg j v) = needsPipelineFlush bg"
    by (simp add: setSamplerBindingResource_def)
  have b: "shouldResetBindGroup (set_resource b v) \<longleftrightarrow>
        shouldResetBindGroup b \<or> (v \<noteq> None \<and> sb_sampler b \<noteq> None)"
    by (simp add: set_resource_def Let_def)
  have c: "i \<in> set (externalTexturesIndex bg) \<longrightarrow>
        shouldUpdateVideoTextureBindGroupLayout bg i = (False, bg)"
    by (simp add: shouldUpdateVideoTextureBindGroupLayout_def)
  have d: "needsPipelineFlush (snd (shouldUpdateVideoTextureBindGroupLayout bg i)) \<and> \<not> needsPipelineFlush bg
        \<longrightarrow> i \<notin> set (externalTexturesIndex bg)"
    by (auto simp: shouldUpdateVideoTextureBindGroupLayout_def)
  define bg1 where "bg1 = snd (shouldUpdateVideoTextureBindGroupLayout bg i)"
  have reg: "i \<in> set (externalTexturesIndex bg1)"
    unfolding bg1_def by (rule shouldUpdate_registers)
  then have e: "shouldUpdateVideoTextureBindGroupLayout bg1 i = (False, bg1)"
    by (simp add: shouldUpdateVideoTextureBindGroupLayout_def)
  have "i \<in> set (externalTexturesIndex (clearPipelineFlush bg1))"
    using reg by (simp add: clearPipelineFlush_def)
  then have f: "shouldUpdateVideoTextureBindGroupLayout (clearPipelineFlush bg1) i
           = (False, clearPipelineFlush bg1)"
    by (simp add: shouldUpdateVideoTextureBindGroupLayout_def)
  from a b c d e f show ?thesis
    by (simp add: bg1_def [symmetric] Let_def)
qed

theorem no_redundant_flush_witness:
  "needsPipelineFlush (setSamplerBindingResource video_bind_group 0 (Some 9)) = False
   \<and> shouldUpdateVideoTextureBindGroupLayout
       (video_bind_group\<lparr>externalTexturesIndex := [0]\<rparr>) 0
     = (False, video_bind_group\<lparr>externalTexturesIndex := [0]\<rparr>)
   \<and> fst (shouldUpdateVideoTextureBindGroupLayout video_bind_group 0)
   \<and> \<not> fst (shouldUpdateVideoTextureBindGroupLayout
          (snd (shouldUpdateVideoTextureBindGroupLayout video_bind_group 0)) 0)"
  using no_redundant_flush [of video_bind_group 0 "Some 9" undefined 0]
    no_redundant_flush [of "video_bind_group\<lparr>externalTexturesIndex := [0]\<rparr>" 0 "Some 9" undefined 0]
  by (simp add: video_bind_group_def shouldUpdateVideoTextureBindGroupLayout_def Let_def)

subsection \<open>The trace of a frame\<close>

lemma trace_issue [simp]: "trace (issue c enc) = trace enc @ [c]"
  by (simp add: issue_def)

lemma passes_issue [simp]: "passes (issue c enc) = passes enc"
  by (simp add: issue_def)

lemma trace_fold_issue: "trace (fold (\<lambda>x. issue (f x)) xs enc) = trace enc @ map f xs"
  by (induction xs arbitrary: enc) simp_all

lemma passes_fold_issue: "passes (fold (\<lambda>x. issue (f x)) xs enc) = passes enc"
  by (induction xs arbitrary: enc) simp_all

lemma render_pingPongPlane_step:
  "trace (render_pingPongPlane swap p enc) = trace enc @ pingPong_phase swap (passes enc) [p]
   \<and> passes (render_pingPongPlane swap p enc) = Suc (passes enc)"
  by (simp add: render_pingPongPlane_def beginRenderPass_def)

lemma pingPong_fold:
  "trace (fold (render_pingPongPlane swap) ps enc) = trace enc @ pingPong_phase swap (passes enc) ps
   \<and> passes (fold (render_pingPongPlane swap) ps enc) = passes enc + length ps"
proof (induction ps arbitrary: enc)
  case Nil
  then show ?case by simp
next
  case (Cons p ps)
  show ?case
    using Cons [of "render_pingPongPlane swap p enc"] render_pingPongPlane_step [of swap p enc]
    by simp
qed

lemma render_shaderPass_step:
  "trace (render_shaderPass swap p enc) = trace enc @ shaderPass_phase swap (passes enc) [p]
   \<and> passes (render_shaderPass swap p enc) = Suc (passes enc)"
  by (simp add: render_shaderPass_def beginRenderPass_def)

lemma shaderPass_fold:
  "trace (fold (render_shaderPass swap) ps enc) = trace enc @ shaderPass_phase swap (passes enc) ps
   \<and> passes (fold (render_shaderPass swap) ps enc) = passes enc + length ps"
proof (induction ps arbitrary: enc)
  case Nil
  then show ?case by simp
next
  case (Cons p ps)
  show ?case
    using Cons [of "render_shaderPass swap p enc"] render_shaderPass_step [of swap p enc]
    by simp
qed

lemma scene_render_trace:
  "trace (scene_render r sc enc) = trace enc @ frame_trace r sc (passes enc)"
proof -
  define e1 where "e1 =
    issue SetRenderPassCurrentTexture
     (fold (\<lambda>element. issue (OnBeforeRenderPass (uuid element))) (projected_transparent sc)
     (fold (\<lambda>element. issue (OnBeforeRenderPass (uuid element))) (projected_opaque sc)
     (fold (\<lambda>element. issue (OnBeforeRenderPass (pp_uuid element))) (shaderPasses sc)
     (fold (\<lambda>element. issue (OnBeforeRenderPass (pp_uuid element))) (pingPongPlanes sc)
     (fold (\<lambda>element. issue (OnBeforeRenderPass (uuid element))) (unprojected_transparent sc)
     (fold (\<lambda>element. issue (OnBeforeRenderPass (uuid element))) (unprojected_opaque sc) enc))))))"
  have t1: "trace e1 = trace enc @ refresh_phase sc @ [SetRenderPassCurrentTexture]"
    by (simp add: e1_def trace_fold_issue refresh_phase_def)
  have p1: "passes e1 = passes enc"
    by (simp add: e1_def passes_fold_issue)
  define e2 where "e2 = fold (render_pingPongPlane (currentTexture r)) (pingPongPlanes sc) e1"
  have t2: "trace e2 = trace e1 @ pingPong_phase (currentTexture r) (passes enc) (pingPongPlanes sc)"
    and p2: "passes e2 = passes enc + length (pingPongPlanes sc)"
    using pingPong_fold [of "currentTexture r" "pingPongPlanes sc" e1] by (simp_all add: e2_def p1)
  define n where "n = passes enc + length (pingPongPlanes sc)"
  define e3 where "e3 = snd (beginRenderPass e2)"
  have b: "beginRenderPass e2 = (n, e3)"
    by (simp add: e3_def n_def p2 [symmetric] beginRenderPass_def)
  have t3: "trace e3 = trace e2 @ [BeginRenderPass n]" and p3: "passes e3 = Suc n"
    by (simp_all add: e3_def n_def p2 [symmetric] beginRenderPass_def)
  define e4 where "e4 =
     issue (EndPass n)
      (fold (\<lambda>mesh. issue (Render (uuid mesh) n)) (projected_transparent sc)
      (fold (\<lambda>mesh. issue (Render (uuid mesh) n)) (projected_opaque sc)
      (case cameraBindGroup r of
         None \<Rightarrow> fold (\<lambda>mesh. issue (Render (uuid mesh) n)) (unprojected_transparent sc)
                   (fold (\<lambda>mesh. issue (Render (uuid mesh) n)) (unprojected_opaque sc) e3)
       | Some (camera_index, camera_group) \<Rightarrow>
           issue (SetBindGroup n camera_index camera_group)
             (fold (\<lambda>mesh. issue (Render (uuid mesh) n)) (unprojected_transparent sc)
               (fold (\<lambda>mesh. issue (Render (uuid mesh) n)) (unprojected_opaque sc) e3)))))"
  have t4: "trace e4 = trace e2 @ main_pass r sc n"
    by (cases "cameraBindGroup r")
      (auto simp: e4_def trace_fold_issue main_pass_def t3)
  have p4: "passes e4 = Suc n"
    by (cases "cameraBindGroup r")
      (auto simp: e4_def passes_fold_issue p3)
  have "scene_render r sc enc = fold (render_shaderPass (currentTexture r)) (shaderPasses sc) e4"
    by (simp add: scene_render_def Let_def e1_def [symmetric] e2_def [symmetric] b e4_def
        split: option.splits prod.splits)
  then have "trace (scene_render r sc enc)
      = trace e4 @ shaderPass_phase (currentTexture r) (Suc n) (shaderPasses sc)"
    using shaderPass_fold [of "currentTexture r" "shaderPasses sc" e4] by (simp add: p4)
  then show ?thesis
    by (simp add: t4 t2 t1 frame_trace_def passes_phase_def n_def)
qed

lemma refresh_phase_is_refresh: "c \<in> set (refresh_phase sc) \<Longrightarrow> is_refresh c"
  by (auto simp: refresh_phase_def is_refresh_def)

lemma pingPong_phase_no_refresh: "c \<in> set (pingPong_phase swap n ps) \<Longrightarrow> \<not> is_refresh c"
  by (induction ps arbitrary: n) (auto simp: is_refresh_def)

lemma shaderPass_phase_no_refresh: "c \<in> set (shaderPass_phase swap n ps) \<Longrightarrow> \<not> is_refresh c"
  by (induction ps arbitrary: n) (auto simp: is_refresh_def)

lemma main_pass_no_refresh: "c \<in> set (main_pass r sc n) \<Longrightarrow> \<not> is_refresh c"
  by (auto simp: main_pass_def is_refresh_def split: option.splits)

lemma passes_phase_no_refresh: "c \<in> set (passes_phase r sc n) \<Longrightarrow> \<not> is_refresh c"
  using pingPong_phase_no_refresh shaderPass_phase_no_refresh main_pass_no_refresh
  by (fastforce simp: passes_phase_def is_refresh_def)

lemma register_equal_render_order:
  "(\<And>p. p \<in> set ps \<Longrightarrow> pp_renderOrder p = ro) \<Longrightarrow>
   (\<And>p. p \<in> set (shaderPasses sc) \<Longrightarrow> pp_renderOrder p = ro) \<Longrightarrow>
   shaderPasses (register_shaderPasses sc ps) = shaderPasses sc @ ps"
proof (induction ps arbitrary: sc)
  case Nil
  then show ?case by (simp add: register_shaderPasses_def)
next
  case (Cons p ps)
  have ro: "pp_renderOrder p = ro" using Cons.prems(1) by simp
  have "array_sort (\<lambda>a b. pp_renderOrder b - pp_renderOrder a) (shaderPasses sc @ [p])
        = shaderPasses sc @ [p]"
    by (rule array_sort_all_equal) (use Cons.prems(2) ro in auto)
  then have s: "shaderPasses (addShaderPass sc p) = shaderPasses sc @ [p]"
    by (simp add: addShaderPass_def)
  have "shaderPasses (register_shaderPasses (addShaderPass sc p) ps)
        = shaderPasses (addShaderPass sc p) @ ps"
    by (rule Cons.IH) (use Cons.prems ro s in auto)
  then show ?case
    by (simp add: register_shaderPasses_def s)
qed

subsection \<open>The order of a frame (C1)\<close>

text \<open>
  C1, as stated, fails in its last clause: composite passes do not always run in
  registration order. \<open>addShaderPass\<close> sorts the stack by render order, and the frame
  follows the stack: pass \<open>A\<close> (render order 0) registered before pass \<open>B\<close> (render
  order 1) is drawn after it.
\<close>

theorem shader_passes_not_in_registration_order:
  "trace (scene_render ready_renderer
            (register_shaderPasses (setStacks []) [plane_A, plane_B]) new_encoder)
   = [OnBeforeRenderPass ''B'', OnBeforeRenderPass ''A'', SetRenderPassCurrentTexture,
      BeginRenderPass 0, SetBindGroup 0 0 5, EndPass 0,
      CopyTextureToTexture 10 12 4 3, BeginRenderPass 1, Render ''B'' 1, EndPass 1,
      CopyTextureToTexture 10 11 4 3, BeginRenderPass 2, Render ''A'' 2, EndPass 2]"
  by (simp add: scene_render_def register_shaderPasses_def addShaderPass_def setStacks_def
      array_sort_def plane_A_def plane_B_def ready_renderer_def new_encoder_def
      render_shaderPass_def beginRenderPass_def issue_def)

text \<open>
  C1, amended. A frame is strictly sequential: first the refresh hook of every member
  of every stack, whatever its visibility, and nothing else; then the current texture
  is acquired; then each ping-pong plane is drawn in a pass of its own, followed by the
  copy of the primary output into its texture; then one pass draws the unprojected
  opaque, unprojected transparent, projected opaque and projected transparent meshes,
  in that order; finally, for each shader pass in the order of the shader pass stack,
  the primary output is copied into its texture, a new pass is begun, the shader pass
  is drawn and the pass ended. No refresh hook runs once the first pass has begun. The
  stack order of the shader passes is their registration order when they all have the
  same render order.
\<close>

theorem frame_is_sequential:
  "trace (scene_render r sc enc) = trace enc @ refresh_phase sc @ passes_phase r sc (passes enc)
   \<and> passes_phase r sc n =
       [SetRenderPassCurrentTexture]
       @ pingPong_phase (currentTexture r) n (pingPongPlanes sc)
       @ main_pass r sc (n + length (pingPongPlanes sc))
       @ shaderPass_phase (currentTexture r) (n + length (pingPongPlanes sc) + 1) (shaderPasses sc)
   \<and> (\<forall>c \<in> set (refresh_phase sc). is_refresh c)
   \<and> (\<forall>c \<in> set (passes_phase r sc n). \<not> is_refresh c)
   \<and> ((\<forall>p \<in> set ps. pp_renderOrder p = ro) \<longrightarrow>
        shaderPasses (register_shaderPasses (setStacks ms) ps) = ps)"
proof -
  have "(\<forall>p \<in> set ps. pp_renderOrder p = ro) \<longrightarrow>
        shaderPasses (register_shaderPasses (setStacks ms) ps) = ps"
    using register_equal_render_order [of ps ro "setStacks ms"]
    by (simp add: setStacks_def)
  then show ?thesis
    using scene_render_trace [of r sc enc]
      refresh_phase_is_refresh [of _ sc] passes_phase_no_refresh [of _ r sc n]
    by (auto simp: frame_trace_def passes_phase_def)
qed

theorem frame_is_sequential_witness:
  "shaderPasses (register_shaderPasses (setStacks []) [plane_A, plane_C]) = [plane_A, plane_C]
   \<and> trace (scene_render ready_renderer scene_with_meshes new_encoder)
     = [OnBeforeRenderPass ''a'', OnBeforeRenderPass ''C'', OnBeforeRenderPass ''far'',
        SetRenderPassCurrentTexture,
        BeginRenderPass 0, Render ''C'' 0, EndPass 0, CopyTextureToTexture 10 13 4 3,
        BeginRenderPass 1, Render ''a'' 1, SetBindGroup 1 0 5, Render ''far'' 1, EndPass 1]"
  using frame_is_sequential [of ready_renderer scene_with_meshes new_encoder 0 "[plane_A, plane_C]" 0 "[]"]
  by (simp add: plane_A_def plane_C_def scene_with_meshes_def setStacks_def new_encoder_def
      ready_renderer_def refresh_phase_def main_pass_def mesh_ro0_def mesh_far_def)

subsection \<open>Skipping what is not ready (C9)\<close>

lemma fold_setBindGroup:
  "fold (\<lambda>bindGroup pass. pass @ [PassSetBindGroup (bg_index bindGroup) (bg_bindGroup bindGroup)]) bgs pass
   = pass @ map (\<lambda>bindGroup. PassSetBindGroup (bg_index bindGroup) (bg_bindGroup bindGroup)) bgs"
  by (induction bgs arbitrary: pass) simp_all

lemma member_rendered_in_main_pass:
  assumes "x \<in> set (unprojected_opaque sc) \<union> set (unprojected_transparent sc)
             \<union> set (projected_opaque sc) \<union> set (projected_transparent sc)"
  shows "Render (uuid x) (passes enc + length (pingPongPlanes sc)) \<in> set (trace (scene_render r sc enc))"
proof -
  have "Render (uuid x) (passes enc + length (pingPongPlanes sc))
          \<in> set (main_pass r sc (passes enc + length (pingPongPlanes sc)))"
    using assms by (auto simp: main_pass_def)
  then show ?thesis
    by (simp add: scene_render_trace frame_trace_def passes_phase_def)
qed

text \<open>
  C9. When the renderer is not ready, \<open>render\<close> returns the command encoder as it
  received it: no callback has run and no pass has begun. When the renderer is not
  ready or the material has no compiled pipeline, \<open>Material.render\<close> leaves the pass
  as it received it; a pipeline entry without a pipeline object, such as one still
  compiling or one whose compilation ended in an error, makes the material not ready.
  The mesh is not taken out of the scene: in every frame of a ready renderer, whatever
  happened before, each member of the four mesh stacks has its \<open>render\<close> called in
  the main pass, and once the pipeline is there the same \<open>Material.render\<close> sets the
  pipeline and the bind groups.
\<close>

theorem not_ready_is_skipped:
  "(\<not> ready r \<longrightarrow> renderer_render r enc = enc)
   \<and> (\<not> ready r \<or> \<not> material_ready m \<longrightarrow> material_render r m pass = pass)
   \<and> (mat_pipelineEntry m = Some pe \<and> pipeline pe = None \<longrightarrow> \<not> material_ready m)
   \<and> (pipeline pe = None \<longrightarrow> pipeline (createRenderPipelineAsync_settled pe (Inl error)) = None)
   \<and> (x \<in> set (unprojected_opaque sc) \<union> set (unprojected_transparent sc)
           \<union> set (projected_opaque sc) \<union> set (projected_transparent sc) \<longrightarrow>
        Render (uuid x) (passes enc + length (pingPongPlanes sc))
          \<in> set (trace (scene_render r sc enc)))
   \<and> (ready r \<and> mat_pipelineEntry m = Some pe \<and> pipeline pe \<noteq> None \<longrightarrow>
        material_render r m pass =
          pass @ SetCurrentPipeline (pe_index pe)
               # map (\<lambda>bindGroup. PassSetBindGroup (bg_index bindGroup) (bg_bindGroup bindGroup))
                   (mat_bindGroups m))"
proof -
  have a: "\<not> ready r \<longrightarrow> renderer_render r enc = enc"
    by (simp add: renderer_render_def)
  have b: "\<not> ready r \<or> \<not> material_ready m \<longrightarrow> material_render r m pass = pass"
    by (auto simp: material_render_def)
  have c: "mat_pipelineEntry m = Some pe \<and> pipeline pe = None \<longrightarrow> \<not> material_ready m"
    by (simp add: material_ready_def)
  have d: "pipeline pe = None \<longrightarrow> pipeline (createRenderPipelineAsync_settled pe (Inl error)) = None"
    by (simp add: createRenderPipelineAsync_settled_def)
  have e: "x \<in> set (unprojected_opaque sc) \<union> set (unprojected_transparent sc)
           \<union> set (projected_opaque sc) \<union> set (projected_transparent sc) \<longrightarrow>
        Render (uuid x) (passes enc + length (pingPongPlanes sc))
          \<in> set (trace (scene_render r sc enc))"
    using member_rendered_in_main_pass [of x sc enc r] by blast
  have f: "ready r \<and> mat_pipelineEntry m = Some pe \<and> pipeline pe \<noteq> None \<longrightarrow>
        material_render r m pass =
          pass @ SetCurrentPipeline (pe_index pe)
               # map (\<lambda>bindGroup. PassSetBindGroup (bg_index bindGroup) (bg_bindGroup bindGroup))
                   (mat_bindGroups m)"
    by (simp add: material_render_def material_ready_def fold_setBindGroup)
  from a b c d e f show ?thesis by blast
qed

theorem not_ready_is_skipped_witness:
  "renderer_render lost_renderer new_encoder = new_encoder
   \<and> material_render ready_renderer compiling_material [] = []
   \<and> Render ''a'' 1 \<in> set (trace (scene_render ready_renderer scene_with_meshes new_encoder))
   \<and> material_render ready_renderer
        (compiling_material\<lparr>mat_pipelineEntry :=
           Some (createRenderPipelineAsync_settled compiling_entry (Inr 8))\<rparr>) []
      = [SetCurrentPipeline 0, PassSetBindGroup 0 (Some 4)]"
proof -
  have r1: "\<not> ready lost_renderer"
    by (simp add: lost_renderer_def ready_def)
  have r2: "ready ready_renderer"
    by (simp add: ready_renderer_def ready_def)
  have m1: "\<not> material_ready compiling_material"
    by (simp add: compiling_material_def compiling_entry_def material_ready_def)
  define m2 where "m2 = compiling_material\<lparr>mat_pipelineEntry :=
           Some (createRenderPipelineAsync_settled compiling_entry (Inr 8))\<rparr>"
  have x: "mesh_ro0 \<in> set (unprojected_opaque scene_with_meshes)"
    by (simp add: scene_with_meshes_def)
  have u: "uuid mesh_ro0 = ''a''" "passes new_encoder + length (pingPongPlanes scene_with_meshes) = 1"
    by (simp_all add: mesh_ro0_def new_encoder_def scene_with_meshes_def setStacks_def)
  have p2: "mat_pipelineEntry m2 = Some (createRenderPipelineAsync_settled compiling_entry (Inr 8))"
    "pipeline (createRenderPipelineAsync_settled compiling_entry (Inr 8)) \<noteq> None"
    "pe_index (createRenderPipelineAsync_settled compiling_entry (Inr 8)) = 0"
    "mat_bindGroups m2 = [\<lparr>bg_index = 0, bg_bindGroup = Some 4, bg_bindings = []\<rparr>]"
    by (simp_all add: m2_def createRenderPipelineAsync_settled_def compiling_entry_def
        compiling_material_def)
  show ?thesis
    using not_ready_is_skipped [of lost_renderer new_encoder compiling_material "[]"
        compiling_entry "''e''" mesh_ro0 scene_with_meshes]
      not_ready_is_skipped [of ready_renderer new_encoder compiling_material "[]"
        compiling_entry "''e''" mesh_ro0 scene_with_meshes]
      not_ready_is_skipped [of ready_renderer new_encoder m2 "[]"
        "createRenderPipelineAsync_settled compiling_entry (Inr 8)" "''e''" mesh_ro0 scene_with_meshes]
      r1 r2 m1 x u p2
    by (simp add: m2_def [symmetric])
qed

subsection \<open>Strings and searches\<close>







subsection \<open>The array of group bindings\<close>










subsection \<open>Heads only grow\<close>




















subsection \<open>Declarations emitted by shader patching (C6)\<close>



subsection \<open>One source for two stages (C7)\<close>






end
